theory Spec2Isabelle
  imports Complex_Main "HOL-Library.Product_Lexorder" "HOL-Library.Multiset"
begin

section \<open>Rounds, events and the transition table (decision_maker_abci/rounds.py)\<close>

text \<open>The \<open>Event\<close> enumeration of rounds.py, one constructor per member, in source order.\<close>

datatype Event =
    DONE | NONE | NO_MAJORITY | ROUND_TIMEOUT | UNPROFITABLE | FETCH_ERROR | TIE
  | MECH_RESPONSE_ERROR | INSUFFICIENT_BALANCE | SLOTS_UNSUPPORTED_ERROR | NO_REDEEMING
  | REDEEM_ROUND_TIMEOUT | MOCK_TX | MOCK_MECH_REQUEST | BLACKLIST | NO_OP
  | CALC_BUY_AMOUNT_FAILED | BENCHMARKING_ENABLED | BENCHMARKING_DISABLED
  | BENCHMARKING_FINISHED | NEW_SIMULATED_RESAMPLE | NO_SUBSCRIPTION | SUBSCRIPTION_ERROR

text \<open>The string value of each member (\<open>Event.X.value\<close>).\<close>

fun Event_value :: "Event \<Rightarrow> string" where
  "Event_value DONE = ''done''"
| "Event_value NONE = ''none''"
| "Event_value NO_MAJORITY = ''no_majority''"
| "Event_value ROUND_TIMEOUT = ''round_timeout''"
| "Event_value UNPROFITABLE = ''unprofitable''"
| "Event_value FETCH_ERROR = ''fetch_error''"
| "Event_value TIE = ''tie''"
| "Event_value MECH_RESPONSE_ERROR = ''mech_response_error''"
| "Event_value INSUFFICIENT_BALANCE = ''insufficient_balance''"
| "Event_value SLOTS_UNSUPPORTED_ERROR = ''slots_unsupported_error''"
| "Event_value NO_REDEEMING = ''no_redeeming''"
| "Event_value REDEEM_ROUND_TIMEOUT = ''redeem_round_timeout''"
| "Event_value MOCK_TX = ''mock_tx''"
| "Event_value MOCK_MECH_REQUEST = ''mock_mech_request''"
| "Event_value BLACKLIST = ''blacklist''"
| "Event_value NO_OP = ''no_op''"
| "Event_value CALC_BUY_AMOUNT_FAILED = ''calc_buy_amount_failed''"
| "Event_value BENCHMARKING_ENABLED = ''benchmarking_enabled''"
| "Event_value BENCHMARKING_DISABLED = ''benchmarking_disabled''"
| "Event_value BENCHMARKING_FINISHED = ''benchmarking_finished''"
| "Event_value NEW_SIMULATED_RESAMPLE = ''new_simulated_resample''"
| "Event_value NO_SUBSCRIPTION = ''no_subscription''"
| "Event_value SUBSCRIPTION_ERROR = ''subscription_error''"

text \<open>The round classes that rounds.py imports and uses as keys and destinations.\<close>

datatype Round =
    ClaimRound | HandleFailedTxRound | RandomnessRound | BenchmarkingRandomnessRound
  | SubscriptionRound | SamplingRound | PredictionRound | BetPlacementRound | RedeemRound
  | BlacklistingRound | CheckBenchmarkingModeRound
  | BenchmarkingDoneRound | BenchmarkingModeDisabledRound | FinishedDecisionMakerRound
  | FinishedSubscriptionRound | FinishedWithoutDecisionRound | FinishedWithoutRedeemingRound
  | ImpossibleRound | RefillRequiredRound

text \<open>
  \<open>DecisionMakerAbciApp.transition_function\<close>: a dictionary from round to a dictionary from
  event to round. Each inner dictionary is an association list in source order (the keys
  of every inner dictionary of the source are distinct); a round that is not a key of the
  outer dictionary has no entry.
\<close>

fun transitions :: "Round \<Rightarrow> (Event \<times> Round) list" where
  "transitions ClaimRound =
     [(DONE, SamplingRound), (NO_MAJORITY, ClaimRound), (ROUND_TIMEOUT, ClaimRound),
      (SUBSCRIPTION_ERROR, ClaimRound)]"
| "transitions HandleFailedTxRound =
     [(NO_OP, RedeemRound), (BLACKLIST, BlacklistingRound),
      (NO_MAJORITY, HandleFailedTxRound)]"
| "transitions RandomnessRound =
     [(DONE, SamplingRound), (ROUND_TIMEOUT, RandomnessRound),
      (NO_MAJORITY, RandomnessRound), (NONE, ImpossibleRound)]"
| "transitions BenchmarkingRandomnessRound =
     [(DONE, SamplingRound), (ROUND_TIMEOUT, BenchmarkingRandomnessRound),
      (NO_MAJORITY, BenchmarkingRandomnessRound), (NONE, ImpossibleRound)]"
| "transitions SubscriptionRound =
     [(DONE, FinishedSubscriptionRound), (NO_SUBSCRIPTION, SamplingRound),
      (SUBSCRIPTION_ERROR, SubscriptionRound), (NO_MAJORITY, SubscriptionRound),
      (ROUND_TIMEOUT, SubscriptionRound), (NONE, SubscriptionRound),
      (MOCK_TX, SamplingRound)]"
| "transitions SamplingRound =
     [(DONE, SubscriptionRound), (BENCHMARKING_ENABLED, PredictionRound),
      (NONE, FinishedWithoutDecisionRound), (FETCH_ERROR, ImpossibleRound),
      (NO_MAJORITY, SamplingRound), (ROUND_TIMEOUT, SamplingRound),
      (BENCHMARKING_FINISHED, BenchmarkingDoneRound),
      (NEW_SIMULATED_RESAMPLE, SamplingRound)]"
| "transitions PredictionRound =
     [(DONE, BetPlacementRound), (UNPROFITABLE, BlacklistingRound),
      (ROUND_TIMEOUT, PredictionRound), (NO_MAJORITY, PredictionRound)]"
| "transitions BetPlacementRound =
     [(DONE, FinishedDecisionMakerRound), (INSUFFICIENT_BALANCE, RefillRequiredRound),
      (NO_MAJORITY, BetPlacementRound), (ROUND_TIMEOUT, BetPlacementRound),
      (NONE, ImpossibleRound), (MOCK_TX, RedeemRound),
      (CALC_BUY_AMOUNT_FAILED, HandleFailedTxRound)]"
| "transitions RedeemRound =
     [(DONE, FinishedDecisionMakerRound), (NO_REDEEMING, FinishedWithoutRedeemingRound),
      (REDEEM_ROUND_TIMEOUT, FinishedWithoutRedeemingRound), (NO_MAJORITY, RedeemRound),
      (NONE, ImpossibleRound), (MOCK_TX, SamplingRound)]"
| "transitions BlacklistingRound =
     [(DONE, FinishedWithoutDecisionRound), (NO_MAJORITY, BlacklistingRound),
      (ROUND_TIMEOUT, BlacklistingRound), (NONE, ImpossibleRound),
      (FETCH_ERROR, ImpossibleRound), (MOCK_TX, FinishedWithoutDecisionRound)]"
| "transitions CheckBenchmarkingModeRound =
     [(BENCHMARKING_ENABLED, BenchmarkingRandomnessRound),
      (BENCHMARKING_DISABLED, BenchmarkingModeDisabledRound),
      (SUBSCRIPTION_ERROR, ImpossibleRound), (NO_MAJORITY, CheckBenchmarkingModeRound),
      (ROUND_TIMEOUT, CheckBenchmarkingModeRound), (NONE, ImpossibleRound),
      (DONE, ImpossibleRound)]"
| "transitions _ = []"

definition transition_function :: "Round \<Rightarrow> Event \<Rightarrow> Round option" where
  "transition_function r e = map_of (transitions r) e"

text \<open>\<open>DecisionMakerAbciApp.event_to_timeout\<close> (seconds).\<close>

definition event_to_timeout :: "Event \<Rightarrow> real option" where
  "event_to_timeout = map_of [(ROUND_TIMEOUT, 30), (REDEEM_ROUND_TIMEOUT, 60)]"

text \<open>\<open>DecisionMakerAbciApp.final_states\<close>.\<close>

definition final_states :: "Round list" where
  "final_states =
     [FinishedDecisionMakerRound, FinishedWithoutDecisionRound, ImpossibleRound,
      BenchmarkingDoneRound, BenchmarkingModeDisabledRound, FinishedWithoutRedeemingRound,
      RefillRequiredRound, FinishedSubscriptionRound]"

section \<open>Bets and the freshness policy (market_manager_abci/behaviours.py)\<close>

text \<open>
  Modelled from the spec: \<open>QueueStatus\<close> is declared in market_manager_abci/bets.py, which is
  not among the sources; the spec gives its members as FRESH, TO_PROCESS and EXPIRED.
\<close>

datatype QueueStatus = FRESH | TO_PROCESS | EXPIRED

text \<open>
  Modelled from the spec: the \<open>Bet\<close> dataclass of market_manager_abci/bets.py (not among the
  sources), with the fields section 3 of the spec lists. Timestamps, counters and wagered
  amounts are Python integers; the liquidity measure is a float, read here as a real
  number (its comparisons are those of the reals on every float that is not NaN).
  The field \<open>id\<close> is named \<open>bet_id\<close>, \<open>id\<close> being the identity function of HOL.
\<close>

record Bet =
  bet_id :: string
  openingTimestamp :: int
  scaledLiquidityMeasure :: real
  outcomeTokenAmounts :: "int list"
  fee :: int
  queue_no :: int
  processed_timestamp :: int
  n_bets :: int
  invested_amount :: int
  queue_status :: QueueStatus

text \<open>
  \<open>UpdateBetsBehaviour._bet_freshness_check_and_update\<close>: \<open>all(...)\<close> over the bets that are
  not EXPIRED, then the loop that promotes every bet that is not EXPIRED.
\<close>

definition all_bets_fresh :: "Bet list \<Rightarrow> bool" where
  "all_bets_fresh bets =
     list_all (\<lambda>bet. queue_status bet = FRESH)
       (filter (\<lambda>bet. queue_status bet \<noteq> EXPIRED) bets)"

definition promote :: "Bet \<Rightarrow> Bet" where
  "promote bet =
     (if queue_status bet \<noteq> EXPIRED then bet\<lparr>queue_status := TO_PROCESS\<rparr> else bet)"

definition bet_freshness_check_and_update :: "Bet list \<Rightarrow> Bet list" where
  "bet_freshness_check_and_update bets =
     (if all_bets_fresh bets then map promote bets else bets)"

text \<open>\<open>UpdateBetsBehaviour._requeue_all_bets\<close>.\<close>

definition requeue_all_bets :: "Bet list \<Rightarrow> Bet list" where
  "requeue_all_bets bets =
     map (\<lambda>bet. if queue_status bet \<noteq> EXPIRED then bet\<lparr>queue_status := FRESH\<rparr> else bet) bets"


section \<open>Merging fetched bets (market_manager_abci/behaviours.py)\<close>

text \<open>
  Modelled from the spec: \<open>FetchStatus\<close> is declared in
  market_manager_abci/graph_tooling/requests.py, which is not among the sources; the spec
  says that a fetch reports success, partial or failure.
\<close>

datatype FetchStatus = SUCCESS | PARTIAL | FAILURE

text \<open>
  A raw bet record as the market source delivers it (section 6 of the spec): id,
  liquidity, pool balances, opening timestamp and fee.
\<close>

record RawBet =
  raw_id :: string
  raw_openingTimestamp :: int
  raw_scaledLiquidityMeasure :: real
  raw_outcomeTokenAmounts :: "int list"
  raw_fee :: int

text \<open>
  Modelled from the spec: the constructor call \<open>Bet(**raw_bet, market=...)\<close>; the class is in
  bets.py, which is not among the sources. The spec: a new bet has its bookkeeping
  defaulted (queue_no 0, processed_timestamp 0, n_bets 0, invested_amount 0, FRESH).
\<close>

definition Bet_init :: "RawBet \<Rightarrow> Bet" where
  "Bet_init raw =
     \<lparr>bet_id = raw_id raw,
      openingTimestamp = raw_openingTimestamp raw,
      scaledLiquidityMeasure = raw_scaledLiquidityMeasure raw,
      outcomeTokenAmounts = raw_outcomeTokenAmounts raw,
      fee = raw_fee raw,
      queue_no = 0, processed_timestamp = 0, n_bets = 0, invested_amount = 0,
      queue_status = FRESH\<rparr>"

text \<open>
  Modelled from the spec: \<open>Bet.update_market_info\<close> (bets.py, not among the sources). The
  spec: only the market-facing fields (liquidity, pool balances, opening time, fee) are
  updated in place, the local bookkeeping is preserved.
\<close>

definition update_market_info :: "Bet \<Rightarrow> Bet \<Rightarrow> Bet" where
  "update_market_info self bet =
     self\<lparr>scaledLiquidityMeasure := scaledLiquidityMeasure bet,
          outcomeTokenAmounts := outcomeTokenAmounts bet,
          openingTimestamp := openingTimestamp bet,
          fee := fee bet\<rparr>"

text \<open>\<open>UpdateBetsBehaviour.get_bet_idx\<close>: the first index whose bet has the id, else None.\<close>

fun get_bet_idx :: "Bet list \<Rightarrow> string \<Rightarrow> nat option" where
  "get_bet_idx [] i = None"
| "get_bet_idx (b # bs) i =
     (if bet_id b = i then Some 0 else map_option Suc (get_bet_idx bs i))"

text \<open>The body of the loop of \<open>_process_chunk\<close>, for one raw bet.\<close>

definition process_raw_bet :: "Bet list \<Rightarrow> RawBet \<Rightarrow> Bet list" where
  "process_raw_bet bs raw_bet =
     (let bet = Bet_init raw_bet in
      case get_bet_idx bs (bet_id bet) of
        None \<Rightarrow> bs @ [bet]
      | Some i \<Rightarrow> bs[i := update_market_info (bs ! i) bet])"

text \<open>\<open>UpdateBetsBehaviour._process_chunk\<close>: a chunk that is None is skipped.\<close>

definition process_chunk :: "Bet list \<Rightarrow> RawBet list option \<Rightarrow> Bet list" where
  "process_chunk bs chunk =
     (case chunk of None \<Rightarrow> bs | Some raws \<Rightarrow> foldl process_raw_bet bs raws)"

text \<open>
  \<open>UpdateBetsBehaviour._update_bets\<close>. The fetching itself (\<open>_prepare_fetching\<close>,
  \<open>_fetch_bets\<close>) belongs to the market-data collaborator: the model takes the chunks the
  loop received before \<open>_prepare_fetching\<close> answered False, in order, and the value of
  \<open>_fetch_status\<close> when the loop was left.
\<close>

definition update_bets :: "Bet list \<Rightarrow> RawBet list option list \<Rightarrow> FetchStatus \<Rightarrow> Bet list" where
  "update_bets bs chunks fetch_status =
     (let merged = foldl process_chunk bs chunks in
      if fetch_status \<noteq> SUCCESS then [] else merged)"

section \<open>Sampling a bet (decision_maker_abci/behaviours/sampling.py)\<close>

text \<open>The exceptions that the modelled code can raise.\<close>

datatype exn = ValueError | TypeError | IndexError

definition WEEKDAYS :: int where "WEEKDAYS = 7"
definition UNIX_DAY :: int where "UNIX_DAY = 60 * 60 * 24"
definition UNIX_WEEK :: int where "UNIX_WEEK = WEEKDAYS * UNIX_DAY"

text \<open>The parameters of the skill that the sampling reads (\<open>self.params\<close>).\<close>

record Params =
  sample_bets_closing_days :: int
  opening_margin :: int
  safe_voting_range :: int
  rebet_chance :: real

text \<open>
  The state of a \<open>SamplingBehaviour\<close> that the sampling reads and writes: the bets, the
  liquidity cache of the shared state (a dictionary from bet id to liquidity), the flag
  \<open>should_rebet\<close>, the synchronized timestamp and the parameters.
\<close>

record SamplingBehaviour =
  bets :: "Bet list"
  liquidity_cache :: "string \<rightharpoonup> real"
  should_rebet :: bool
  synced_timestamp :: int
  params :: Params

text \<open>
  \<open>SamplingBehaviour.setup\<close>, named \<open>setup_rebet\<close> here (the source's name is a keyword of
  Isabelle); the bets are those already read into the behaviour. The generator of Python's \<open>random\<close> module is not modelled:
  \<open>random_draw seed\<close> stands for the value of \<open>random.random()\<close> right after
  \<open>random.seed(seed)\<close>, a function of the seed.
\<close>

definition setup_rebet :: "(string \<Rightarrow> real) \<Rightarrow> string \<Rightarrow> SamplingBehaviour \<Rightarrow> SamplingBehaviour" where
  "setup_rebet random_draw most_voted_randomness self =
     (let has_bet_in_the_past = list_ex (\<lambda>bet. n_bets bet > 0) (bets self) in
      if has_bet_in_the_past
      then self\<lparr>should_rebet := (random_draw most_voted_randomness \<le> rebet_chance (params self))\<rparr>
      else self)"

text \<open>\<open>SamplingBehaviour.has_liquidity_changed\<close>: a float never equals None.\<close>

definition has_liquidity_changed :: "SamplingBehaviour \<Rightarrow> Bet \<Rightarrow> bool" where
  "has_liquidity_changed self bet =
     (case liquidity_cache self (bet_id bet) of
        None \<Rightarrow> True
      | Some previous_bet_liquidity \<Rightarrow> scaledLiquidityMeasure bet \<noteq> previous_bet_liquidity)"

text \<open>
  \<open>SamplingBehaviour.processable_bet\<close>. \<open>bool(bet.n_bets)\<close> is \<open>n_bets \<noteq> 0\<close>, the exclusive or
  of two booleans is their difference, and \<open>//\<close> on integers is the floor division \<open>div\<close>.
\<close>

definition processable_bet :: "SamplingBehaviour \<Rightarrow> Bet \<Rightarrow> bool" where
  "processable_bet self bet =
     (let now = synced_timestamp self;
          within_opening_range =
            (openingTimestamp bet \<le> now + sample_bets_closing_days (params self) * UNIX_DAY);
          within_safe_range =
            (now < openingTimestamp bet - opening_margin (params self)
                     - safe_voting_range (params self));
          within_ranges = (within_opening_range \<and> within_safe_range)
      in if should_rebet self \<noteq> (n_bets bet \<noteq> 0) then False
         else if \<not> should_rebet self then within_ranges \<and> has_liquidity_changed self bet
         else (let lifetime = openingTimestamp bet - now;
                   t_rebetting = lifetime div UNIX_WEEK + UNIX_DAY;
                   can_rebet = (now \<ge> processed_timestamp bet + t_rebetting)
               in within_ranges \<and> can_rebet))"

text \<open>\<open>min\<close> of a list of integers: ValueError on the empty list.\<close>

definition py_min :: "int list \<Rightarrow> exn + int" where
  "py_min xs = (case xs of [] \<Rightarrow> Inl ValueError | x # ys \<Rightarrow> Inr (fold min ys x))"

text \<open>
  \<open>list.sort(key=..., reverse=True)\<close>: a stable sort in descending order of the key, so
  elements with equal keys keep their order. An insertion sort from the right does that:
  an element is put before every element whose key is not greater.
\<close>

fun insort_reverse :: "('a \<Rightarrow> 'k::linorder) \<Rightarrow> 'a \<Rightarrow> 'a list \<Rightarrow> 'a list" where
  "insort_reverse key x [] = [x]"
| "insort_reverse key x (y # ys) =
     (if key y \<le> key x then x # y # ys else y # insort_reverse key x ys)"

definition sort_reverse :: "('a \<Rightarrow> 'k::linorder) \<Rightarrow> 'a list \<Rightarrow> 'a list" where
  "sort_reverse key xs = foldr (insort_reverse key) xs []"

text \<open>\<open>list.index\<close>: the first position of an equal element, ValueError if there is none.\<close>

fun list_index :: "'a list \<Rightarrow> 'a \<Rightarrow> exn + nat" where
  "list_index [] x = Inl ValueError"
| "list_index (y # ys) x =
     (if y = x then Inr 0
      else case list_index ys x of Inl e \<Rightarrow> Inl e | Inr i \<Rightarrow> Inr (Suc i))"

text \<open>The two sort keys of \<open>_sampled_bet_idx\<close>.\<close>

definition new_bet_key :: "Bet \<Rightarrow> real \<times> int" where
  "new_bet_key bet = (scaledLiquidityMeasure bet, openingTimestamp bet)"

definition priority_bet_key :: "Bet \<Rightarrow> int \<times> int \<times> real \<times> int" where
  "priority_bet_key bet =
     (invested_amount bet, - processed_timestamp bet, scaledLiquidityMeasure bet,
      openingTimestamp bet)"

text \<open>\<open>xs[0]\<close>: IndexError on the empty list.\<close>

definition first_elem :: "'a list \<Rightarrow> exn + 'a" where
  "first_elem xs = (case xs of [] \<Rightarrow> Inl IndexError | x # _ \<Rightarrow> Inr x)"

text \<open>\<open>SamplingBehaviour._sampled_bet_idx\<close>; \<open>bs\<close> is its argument, the available bets.\<close>

definition sampled_bet_idx :: "SamplingBehaviour \<Rightarrow> Bet list \<Rightarrow> exn + nat" where
  "sampled_bet_idx self bs =
     (case py_min (map queue_no bs) of
        Inl e \<Rightarrow> Inl e
      | Inr least_queue_number \<Rightarrow>
          (let priority_bets = filter (\<lambda>bet. queue_no bet = least_queue_number) bs;
               new_in_priority_bets = filter (\<lambda>bet. processed_timestamp bet = 0) bs
           in if new_in_priority_bets \<noteq> []
              then (case first_elem (sort_reverse new_bet_key new_in_priority_bets) of
                      Inl e \<Rightarrow> Inl e
                    | Inr bet \<Rightarrow> list_index (bets self) bet)
              else (case first_elem (sort_reverse priority_bet_key priority_bets) of
                      Inl e \<Rightarrow> Inl e
                    | Inr bet \<Rightarrow> list_index (bets self) bet)))"

text \<open>
  \<open>SamplingBehaviour._sample\<close>: the returned index (None when nothing is sampled) and the
  behaviour with its liquidity cache updated.
\<close>

definition sample :: "SamplingBehaviour \<Rightarrow> exn + (nat option \<times> SamplingBehaviour)" where
  "sample self =
     (let available_bets = filter (processable_bet self) (bets self) in
      if length available_bets = 0 then Inr (None, self)
      else case sampled_bet_idx self available_bets of
             Inl e \<Rightarrow> Inl e
           | Inr idx \<Rightarrow>
               if length (bets self) \<le> idx then Inl IndexError
               else (let sampled_bet = bets self ! idx;
                         liquidity = scaledLiquidityMeasure sampled_bet
                     in if liquidity = 0 then Inr (None, self)
                        else Inr (Some idx,
                                  self\<lparr>liquidity_cache :=
                                         (liquidity_cache self)(bet_id sampled_bet \<mapsto> liquidity)\<rparr>)))"


section \<open>Payloads (decision_maker_abci/payloads.py)\<close>

text \<open>
  The Python values that reach the modelled code untyped (dictionary values, constructor
  arguments): None, integers, floats (read as reals) and strings.
\<close>

datatype pyval = PNone | PInt int | PFloat real | PStr string

text \<open>
  \<open>BaseTxPayload\<close> is the framework's base dataclass; its only field that the generated
  constructor takes is \<open>sender\<close>: every payload class of payloads.py adds fields without
  defaults, and prediction.py builds a \<open>PredictionPayload\<close> from the sender and
  \<open>prediction_event\<close> alone. A dataclass does not check the types of its arguments, so
  the fields hold Python values. Subclassing is record extension.
\<close>

record BaseTxPayload =
  sender :: pyval

record PredictionPayload = BaseTxPayload +
  prediction_event :: pyval

record SamplingPayload = BaseTxPayload +
  index :: pyval

text \<open>
  The constructor that \<open>@dataclass\<close> generates for \<open>SamplingPayload\<close>, called with
  positional arguments only: its parameters are \<open>sender\<close> and \<open>index\<close>, neither has a default,
  and any other number of arguments is a TypeError.
\<close>

definition SamplingPayload_init :: "pyval list \<Rightarrow> exn + SamplingPayload" where
  "SamplingPayload_init args =
     (case args of
        [a, b] \<Rightarrow> Inr \<lparr>sender = a, index = b\<rparr>
      | _ \<Rightarrow> Inl TypeError)"

text \<open>The same for \<open>PredictionPayload\<close> (\<open>sender\<close>, \<open>prediction_event\<close>).\<close>

definition PredictionPayload_init :: "pyval list \<Rightarrow> exn + PredictionPayload" where
  "PredictionPayload_init args =
     (case args of
        [a, b] \<Rightarrow> Inr \<lparr>sender = a, prediction_event = b\<rparr>
      | _ \<Rightarrow> Inl TypeError)"

text \<open>
  \<open>SamplingBehaviour.async_act\<close> up to the construction of the payload. Storing and
  hashing the bets belong to the persistence collaborator: \<open>hash_stored_bets\<close> is the hash
  of the stored form of the bets, a function of the bets.
\<close>

definition sampling_async_act ::
    "(Bet list \<Rightarrow> string) \<Rightarrow> string \<Rightarrow> SamplingBehaviour \<Rightarrow> exn + SamplingPayload" where
  "sampling_async_act hash_stored_bets agent_address self =
     (case sample self of
        Inl e \<Rightarrow> Inl e
      | Inr (idx, self') \<Rightarrow>
          (let bets_hash = (case idx of None \<Rightarrow> PNone
                            | Some _ \<Rightarrow> PStr (hash_stored_bets (bets self')));
               idx_value = (case idx of None \<Rightarrow> PNone | Some i \<Rightarrow> PInt (int i))
           in SamplingPayload_init [PStr agent_address, bets_hash, idx_value]))"

section \<open>The prediction round (decision_maker_abci/states/prediction.py)\<close>

text \<open>
  Modelled from the spec: the collection of a round (section 4.3, \<open>submit\<close>): one payload
  value per agent, a dictionary from agent to payload value in insertion order; a second
  submission of an agent overwrites its value and keeps its place. The framework class
  \<open>CollectSameUntilThresholdRound\<close> is not among the sources.
\<close>

fun submit :: "(string \<times> string) list \<Rightarrow> string \<Rightarrow> string \<Rightarrow> (string \<times> string) list" where
  "submit [] agent payload = [(agent, payload)]"
| "submit ((a, p) # c) agent payload =
     (if a = agent then (a, payload) # c else (a, p) # submit c agent payload)"

definition collect :: "(string \<times> string) list \<Rightarrow> (string \<times> string) list" where
  "collect submissions = foldl (\<lambda>c (agent, payload). submit c agent payload) [] submissions"

text \<open>
  Modelled from the spec: the count per distinct payload value (section 1: the layer
  reports a count per distinct payload), a dictionary from payload value to count in the
  order in which the values first occur in the collection, as a Python \<open>Counter\<close> built
  from the collection's values has it.
\<close>

fun count_value :: "(string \<times> nat) list \<Rightarrow> string \<Rightarrow> (string \<times> nat) list" where
  "count_value [] v = [(v, 1)]"
| "count_value ((w, n) # c) v =
     (if w = v then (w, Suc n) # c else (w, n) # count_value c v)"

definition payload_values_count :: "(string \<times> string) list \<Rightarrow> (string \<times> nat) list" where
  "payload_values_count collection = foldl count_value [] (map snd collection)"

text \<open>
  Modelled from the spec: \<open>threshold_reached\<close> (section 4.3): some payload value has been
  submitted by at least \<open>T\<close> agents.
\<close>

definition threshold_reached :: "nat \<Rightarrow> (string \<times> string) list \<Rightarrow> bool" where
  "threshold_reached T collection =
     list_ex (\<lambda>(v, n). T \<le> n) (payload_values_count collection)"

text \<open>
  Modelled from the spec: \<open>most_voted_payload_with_threshold\<close>, an attribute that
  prediction.py reads from the framework's round and uses as a dictionary from payload
  value to vote count (\<open>max\<close> iterates its keys, \<open>.get\<close> gives the count).
\<close>

definition most_voted_payload_with_threshold ::
    "(string \<times> string) list \<Rightarrow> (string \<times> nat) list" where
  "most_voted_payload_with_threshold collection = payload_values_count collection"

text \<open>
  \<open>max(d, key=d.get)\<close> on a dictionary \<open>d\<close>: the keys are visited in the dictionary's order
  and the current best is replaced only by a key whose count is strictly greater, so of
  several keys with the greatest count the first one visited is returned. ValueError on
  an empty dictionary.
\<close>

fun max_from :: "'a \<times> nat \<Rightarrow> ('a \<times> nat) list \<Rightarrow> 'a \<times> nat" where
  "max_from best [] = best"
| "max_from best (x # xs) = max_from (if snd best < snd x then x else best) xs"

definition py_max_key :: "('a \<times> nat) list \<Rightarrow> exn + 'a" where
  "py_max_key d = (case d of [] \<Rightarrow> Inl ValueError | x # xs \<Rightarrow> Inr (fst (max_from x xs)))"

text \<open>The two keys of the synchronized data that the round writes.\<close>

record SynchronizedData =
  participant_to_prediction :: "(string \<times> string) list"
  most_voted_prediction :: "string option"

text \<open>
  \<open>PredictionRound.end_block\<close>, with the quorum threshold \<open>T\<close> and the round's collection:
  the synchronized data after the call.
\<close>

definition end_block ::
    "nat \<Rightarrow> (string \<times> string) list \<Rightarrow> SynchronizedData \<Rightarrow> exn + SynchronizedData" where
  "end_block T collection synchronized_data =
     (if threshold_reached T collection
      then (case py_max_key (most_voted_payload_with_threshold collection) of
              Inl e \<Rightarrow> Inl e
            | Inr event \<Rightarrow>
                Inr (synchronized_data\<lparr>participant_to_prediction := collection,
                                       most_voted_prediction := Some event\<rparr>))
      else Inr synchronized_data)"

section \<open>The prediction step (tools/supafund_predictor.py, behaviours/prediction.py)\<close>

text \<open>The environment variables that \<open>SupafundPredictor.__init__\<close> reads.\<close>

record Env =
  NEXT_PUBLIC_SUPABASE_URL :: "string option"
  SUPABASE_SERVICE_ROLE_KEY :: "string option"
  OPENAI_API_KEY :: "string option"

text \<open>\<open>not v\<close> for a value that is None or a string.\<close>

definition not_set :: "string option \<Rightarrow> bool" where
  "not_set v = (case v of None \<Rightarrow> True | Some s \<Rightarrow> s = [])"

text \<open>
  \<open>SupafundPredictor.__init__\<close>: the two clients raise ValueError when their settings are
  missing; nothing else of the constructed object is modelled.
\<close>

definition SupafundPredictor_init :: "Env \<Rightarrow> exn + unit" where
  "SupafundPredictor_init env =
     (if not_set (NEXT_PUBLIC_SUPABASE_URL env) \<or> not_set (SUPABASE_SERVICE_ROLE_KEY env)
      then Inl ValueError
      else if not_set (OPENAI_API_KEY env) then Inl ValueError
      else Inr ())"

text \<open>
  \<open>re.search(r"application_id '([^']*)'", market_question)\<close>, returning group 1 of the
  leftmost match. At a position where the text \<open>application_id '\<close> starts, the class
  \<open>[^']*\<close> takes every character up to the next quote, and the match succeeds if there is
  such a quote.
\<close>

definition quote :: char where
  "quote = CHR 0x27"

definition application_id_prefix :: string where
  "application_id_prefix = ''application_id '' @ [quote]"

fun strip_prefix :: "string \<Rightarrow> string \<Rightarrow> string option" where
  "strip_prefix [] s = Some s"
| "strip_prefix (p # ps) [] = None"
| "strip_prefix (p # ps) (c # s) = (if p = c then strip_prefix ps s else None)"

definition match_here :: "string \<Rightarrow> string option" where
  "match_here s =
     (case strip_prefix application_id_prefix s of
        None \<Rightarrow> None
      | Some rest \<Rightarrow> if quote \<in> set rest then Some (takeWhile (\<lambda>c. c \<noteq> quote) rest) else None)"

fun re_search_application_id :: "string \<Rightarrow> string option" where
  "re_search_application_id [] = match_here []"
| "re_search_application_id (c # s) =
     (case match_here (c # s) of
        Some g \<Rightarrow> Some g
      | None \<Rightarrow> re_search_application_id s)"

text \<open>The dictionary that both \<open>except\<close> branches of the predictor return.\<close>

definition error_result :: "string \<Rightarrow> (string \<rightharpoonup> pyval)" where
  "error_result reasoning =
     [''prediction'' \<mapsto> PStr ''ERROR'', ''confidence'' \<mapsto> PFloat 0,
      ''reasoning'' \<mapsto> PStr reasoning]"

text \<open>
  \<open>SupafundPredictor.run\<close>. The body of its \<open>try\<close> block calls the database and the language
  model, the external collaborators: \<open>pipeline application_id market_question\<close> is what
  that body does, either raising an exception (\<open>Inl\<close> of its message) or returning the
  dictionary decoded from the model's answer.
\<close>

definition predictor_run ::
    "(string \<Rightarrow> string \<Rightarrow> string + (string \<rightharpoonup> pyval)) \<Rightarrow> string \<Rightarrow> exn + (string \<rightharpoonup> pyval)" where
  "predictor_run pipeline market_question =
     (case re_search_application_id market_question of
        None \<Rightarrow> Inl ValueError
      | Some application_id \<Rightarrow>
          (case pipeline application_id market_question of
             Inl e \<Rightarrow> Inr (error_result e)
           | Inr prediction \<Rightarrow> Inr prediction))"

text \<open>\<open>run_prediction\<close>: construct the predictor, then run it.\<close>

definition run_prediction ::
    "Env \<Rightarrow> (string \<Rightarrow> string \<Rightarrow> string + (string \<rightharpoonup> pyval)) \<Rightarrow> string
       \<Rightarrow> exn + (string \<rightharpoonup> pyval)" where
  "run_prediction env pipeline market_question =
     (case SupafundPredictor_init env of
        Inl e \<Rightarrow> Inl e
      | Inr _ \<Rightarrow> predictor_run pipeline market_question)"

text \<open>\<open>v > 0.5\<close> for a Python value \<open>v\<close>: a number is compared, anything else is a TypeError.\<close>

definition greater_than_half :: "pyval \<Rightarrow> exn + bool" where
  "greater_than_half v =
     (case v of
        PInt i \<Rightarrow> Inr (1 / 2 < real_of_int i)
      | PFloat x \<Rightarrow> Inr (1 / 2 < x)
      | _ \<Rightarrow> Inl TypeError)"

text \<open>
  The expression \<open>is_profitable\<close> of \<open>PredictionBehaviour.async_act\<close>: \<open>and\<close> evaluates its
  right operand only when the left one is true; \<open>.get("confidence", 0.0)\<close> is 0.0 for a
  missing key.
\<close>

definition is_profitable :: "(string \<rightharpoonup> pyval) \<Rightarrow> exn + bool" where
  "is_profitable prediction_result =
     (if prediction_result ''prediction'' = Some (PStr ''Yes'')
      then greater_than_half
             (case prediction_result ''confidence'' of None \<Rightarrow> PFloat 0 | Some v \<Rightarrow> v)
      else Inr False)"

text \<open>
  \<open>PredictionBehaviour.async_act\<close> up to the construction of the payload; \<open>question\<close> is the
  question of the sampled bet.
\<close>

definition prediction_async_act ::
    "Env \<Rightarrow> (string \<Rightarrow> string \<Rightarrow> string + (string \<rightharpoonup> pyval)) \<Rightarrow> string \<Rightarrow> string
       \<Rightarrow> exn + PredictionPayload" where
  "prediction_async_act env pipeline agent_address question =
     (case run_prediction env pipeline question of
        Inl e \<Rightarrow> Inl e
      | Inr prediction_result \<Rightarrow>
          (case is_profitable prediction_result of
             Inl e \<Rightarrow> Inl e
           | Inr profitable \<Rightarrow>
               (let event = (if profitable then Event_value DONE else Event_value UNPROFITABLE)
                in PredictionPayload_init [PStr agent_address, PStr event])))"


section \<open>The trading strategy (custom_scripts/supafund_trader/supafund_trader.py)\<close>

text \<open>
  \<open>REQUIRED_FIELDS\<close> is a frozenset; the list gives its members in the order of the source
  text. The order in which Python iterates a frozenset of strings is not fixed by the
  language, so nothing below depends on the order of this list beyond the order of the
  names inside the error message.
\<close>

definition REQUIRED_FIELDS :: "string list" where
  "REQUIRED_FIELDS =
     [''bankroll'', ''win_probability'', ''confidence'', ''selected_type_tokens_in_pool'',
      ''other_tokens_in_pool'', ''bet_fee'', ''floor_balance'']"

text \<open>
  \<open>check_missing_fields\<close>: \<open>kwargs.get(field, None) is None\<close> holds for an absent key and for
  a key that maps to None.
\<close>

definition is_missing :: "(string \<rightharpoonup> pyval) \<Rightarrow> string \<Rightarrow> bool" where
  "is_missing kwargs field =
     (case kwargs field of None \<Rightarrow> True | Some v \<Rightarrow> v = PNone)"

definition check_missing_fields :: "(string \<rightharpoonup> pyval) \<Rightarrow> string list" where
  "check_missing_fields kwargs = filter (is_missing kwargs) REQUIRED_FIELDS"

text \<open>
  The dictionary that \<open>get_supafund_prediction\<close> returns, and the one that \<open>run\<close> returns,
  which has the key \<open>bet_amount\<close> in addition.
\<close>

record Prediction =
  p_yes :: real
  p_no :: real
  confidence :: real
  info :: "string list"
  error :: "string list"

record StrategyResult = Prediction +
  bet_amount :: int

definition get_supafund_prediction :: "(string \<rightharpoonup> pyval) \<Rightarrow> Prediction" where
  "get_supafund_prediction kwargs =
     \<lparr>p_yes = 6 / 10, p_no = 4 / 10, confidence = 8 / 10,
      info = [''Supafund prediction completed.''], error = []\<rparr>"

text \<open>The text of a list of field names inside an f-string: \<open>['a', 'b']\<close>.\<close>

fun join_comma :: "string list \<Rightarrow> string" where
  "join_comma [] = []"
| "join_comma [x] = x"
| "join_comma (x # y # ys) = x @ '', '' @ join_comma (y # ys)"

definition repr_list :: "string list \<Rightarrow> string" where
  "repr_list xs = ''['' @ join_comma (map (\<lambda>x. [quote] @ x @ [quote]) xs) @ '']''"

definition missing_message :: "string list \<Rightarrow> string" where
  "missing_message missing =
     ''Required kwargs '' @ repr_list missing @ '' were not provided for supafund_trader.''"

text \<open>The decimal text of an integer, as an f-string prints it.\<close>

fun digits_of :: "nat \<Rightarrow> string" where
  "digits_of n =
     (if n < 10 then [char_of (48 + n)]
      else digits_of (n div 10) @ [char_of (48 + n mod 10)])"

definition str_int :: "int \<Rightarrow> string" where
  "str_int i = (if i < 0 then ''-'' @ digits_of (nat (- i)) else digits_of (nat i))"

text \<open>\<open>a - b\<close> on Python values: numbers subtract, anything else is a TypeError.\<close>

definition py_sub :: "pyval \<Rightarrow> pyval \<Rightarrow> exn + pyval" where
  "py_sub a b =
     (case (a, b) of
        (PInt x, PInt y) \<Rightarrow> Inr (PInt (x - y))
      | (PInt x, PFloat y) \<Rightarrow> Inr (PFloat (real_of_int x - y))
      | (PFloat x, PInt y) \<Rightarrow> Inr (PFloat (x - real_of_int y))
      | (PFloat x, PFloat y) \<Rightarrow> Inr (PFloat (x - y))
      | _ \<Rightarrow> Inl TypeError)"

text \<open>\<open>v > 0\<close> on a Python value.\<close>

definition py_positive :: "pyval \<Rightarrow> exn + bool" where
  "py_positive v =
     (case v of PInt i \<Rightarrow> Inr (0 < i) | PFloat x \<Rightarrow> Inr (0 < x) | _ \<Rightarrow> Inl TypeError)"

text \<open>
  \<open>int(v * 0.01)\<close> for a number \<open>v\<close>: the product is taken over the reals (the rounding of
  the floating-point product is not modelled) and \<open>int\<close> truncates towards zero.
\<close>

definition truncate :: "real \<Rightarrow> int" where
  "truncate x = (if 0 \<le> x then \<lfloor>x\<rfloor> else \<lceil>x\<rceil>)"

definition one_percent :: "pyval \<Rightarrow> exn + int" where
  "one_percent v =
     (case v of
        PInt i \<Rightarrow> Inr (truncate (real_of_int i * (1 / 100)))
      | PFloat x \<Rightarrow> Inr (truncate (x * (1 / 100)))
      | _ \<Rightarrow> Inl TypeError)"

text \<open>The dictionary that \<open>run\<close> returns from its two early exits.\<close>

definition rejected :: "string list \<Rightarrow> string list \<Rightarrow> StrategyResult" where
  "rejected info_list error_list =
     \<lparr>p_yes = 0, p_no = 0, confidence = 0, info = info_list, error = error_list,
      bet_amount = 0\<rparr>"

text \<open>\<open>run\<close>, called with keyword arguments \<open>kwargs\<close> (positional arguments are ignored).\<close>

definition run :: "(string \<rightharpoonup> pyval) \<Rightarrow> exn + StrategyResult" where
  "run kwargs =
     (let missing = check_missing_fields kwargs in
      if length missing > 0 then Inr (rejected [] [missing_message missing])
      else
        (let prediction_results = get_supafund_prediction kwargs;
             info0 = info prediction_results;
             error0 = error prediction_results
         in if error prediction_results \<noteq> [] then Inr (rejected info0 error0)
            else
              (let result = (\<lambda>amount info_list.
                     \<lparr>p_yes = p_yes prediction_results, p_no = p_no prediction_results,
                      confidence = confidence prediction_results,
                      info = info_list, error = error0, bet_amount = amount\<rparr>)
               in if 75 / 100 < confidence prediction_results
                  then (case (kwargs ''bankroll'', kwargs ''floor_balance'') of
                          (Some bankroll, Some floor_balance) \<Rightarrow>
                            (case py_sub bankroll floor_balance of
                               Inl e \<Rightarrow> Inl e
                             | Inr bankroll_adj \<Rightarrow>
                                 (case py_positive bankroll_adj of
                                    Inl e \<Rightarrow> Inl e
                                  | Inr False \<Rightarrow> Inr (result 0 info0)
                                  | Inr True \<Rightarrow>
                                      (case one_percent bankroll_adj of
                                         Inl e \<Rightarrow> Inl e
                                       | Inr amount \<Rightarrow>
                                           Inr (result amount
                                                  (info0 @ [''Calculated placeholder bet_amount: ''
                                                            @ str_int amount])))))
                        | _ \<Rightarrow>
                            Inr (result 0
                                   (info0 @ [''Bankroll not available for placeholder bet sizing.''])))
                  else Inr (result 0
                              (info0 @ [''Confidence below threshold, placeholder bet_amount is 0.''])))))"


section \<open>Example data\<close>

text \<open>A bet with the given id and queue status, every other field zero or empty.\<close>

definition example_bet :: "string \<Rightarrow> QueueStatus \<Rightarrow> Bet" where
  "example_bet i s =
     \<lparr>bet_id = i, openingTimestamp = 0, scaledLiquidityMeasure = 0,
      outcomeTokenAmounts = [], fee = 0, queue_no = 0, processed_timestamp = 0,
      n_bets = 0, invested_amount = 0, queue_status = s\<rparr>"

section \<open>Timeout transitions\<close>

lemma round_timeout_self_loop:
  "transition_function r ROUND_TIMEOUT = Some r' \<Longrightarrow> r' = r"
  by (cases r) (simp_all add: transition_function_def)

lemma redeem_round_timeout_target:
  "transition_function r REDEEM_ROUND_TIMEOUT = Some r' \<Longrightarrow>
     r = RedeemRound \<and> r' = FinishedWithoutRedeemingRound"
  by (cases r) (simp_all add: transition_function_def)

lemma event_to_timeout_entries:
  "event_to_timeout e = Some t \<Longrightarrow>
     (e = ROUND_TIMEOUT \<and> t = 30) \<or> (e = REDEEM_ROUND_TIMEOUT \<and> t = 60)"
  by (auto simp: event_to_timeout_def split: if_splits)

text \<open>
  Claim C3, as the code has it. Every entry of the transition table under ROUND_TIMEOUT
  leads back to the round it comes from. The only entry under REDEEM_ROUND_TIMEOUT is
  that of RedeemRound, and it leads to FinishedWithoutRedeemingRound, not back to
  RedeemRound. The only timeouts configured are 30 seconds for ROUND_TIMEOUT and 60
  seconds for REDEEM_ROUND_TIMEOUT.
\<close>

theorem timeout_transitions:
  "(transition_function r ROUND_TIMEOUT = Some r' \<longrightarrow> r' = r)
   \<and> (transition_function r REDEEM_ROUND_TIMEOUT = Some r' \<longrightarrow>
        r = RedeemRound \<and> r' = FinishedWithoutRedeemingRound)
   \<and> (event_to_timeout e = Some t \<longrightarrow>
        (e = ROUND_TIMEOUT \<and> t = 30) \<or> (e = REDEEM_ROUND_TIMEOUT \<and> t = 60))"
  using round_timeout_self_loop redeem_round_timeout_target event_to_timeout_entries
  by blast

theorem timeout_transitions_witness:
  "transition_function SamplingRound ROUND_TIMEOUT = Some SamplingRound
   \<and> transition_function RedeemRound REDEEM_ROUND_TIMEOUT = Some FinishedWithoutRedeemingRound
   \<and> event_to_timeout REDEEM_ROUND_TIMEOUT = Some 60
   \<and> event_to_timeout ROUND_TIMEOUT = Some 30"
  using timeout_transitions [of SamplingRound SamplingRound ROUND_TIMEOUT 30]
    timeout_transitions [of RedeemRound FinishedWithoutRedeemingRound REDEEM_ROUND_TIMEOUT 60]
  by (simp add: transition_function_def event_to_timeout_def)

text \<open>
  Claim C3 as stated fails at RedeemRound: its timeout event, REDEEM_ROUND_TIMEOUT
  (60 seconds), does not lead back to RedeemRound.
\<close>

theorem redeem_timeout_counterexample:
  "transition_function RedeemRound REDEEM_ROUND_TIMEOUT = Some FinishedWithoutRedeemingRound
   \<and> transition_function RedeemRound REDEEM_ROUND_TIMEOUT \<noteq> Some RedeemRound
   \<and> event_to_timeout REDEEM_ROUND_TIMEOUT = Some 60"
  by (simp add: transition_function_def event_to_timeout_def)


section \<open>The freshness check\<close>

lemma freshness_blocked:
  assumes "b \<in> set bs" "queue_status b = TO_PROCESS"
  shows "bet_freshness_check_and_update bs = bs"
proof -
  have "\<not> all_bets_fresh bs"
    using assms by (auto simp: all_bets_fresh_def list_all_iff)
  then show ?thesis by (simp add: bet_freshness_check_and_update_def)
qed

lemma freshness_promotes:
  assumes "list_all (\<lambda>b. queue_status b \<noteq> TO_PROCESS) bs"
  shows "bet_freshness_check_and_update bs =
           map (\<lambda>b. if queue_status b = FRESH then b\<lparr>queue_status := TO_PROCESS\<rparr> else b) bs"
proof -
  have "all_bets_fresh bs"
    using assms by (auto simp: all_bets_fresh_def list_all_iff) (metis QueueStatus.exhaust)
  moreover have "promote b = (if queue_status b = FRESH then b\<lparr>queue_status := TO_PROCESS\<rparr> else b)"
    if "b \<in> set bs" for b
    using that assms by (cases "queue_status b") (auto simp: promote_def list_all_iff)
  ultimately show ?thesis by (simp add: bet_freshness_check_and_update_def)
qed

text \<open>
  Claim C9, as the code has it. The freshness check promotes only when every bet that
  is not EXPIRED is FRESH: as soon as one bet is TO_PROCESS (not EXPIRED and not FRESH),
  the bets are left as they are; when no bet is TO_PROCESS, every FRESH bet becomes
  TO_PROCESS and the EXPIRED bets are left as they are.
\<close>

theorem advance_freshness:
  "(list_ex (\<lambda>b. queue_status b = TO_PROCESS) bs \<longrightarrow> bet_freshness_check_and_update bs = bs)
   \<and> (list_all (\<lambda>b. queue_status b \<noteq> TO_PROCESS) bs \<longrightarrow>
        bet_freshness_check_and_update bs =
          map (\<lambda>b. if queue_status b = FRESH then b\<lparr>queue_status := TO_PROCESS\<rparr> else b) bs)"
  using freshness_blocked freshness_promotes by (auto simp: list_ex_iff)

theorem advance_freshness_witness:
  "map queue_status (bet_freshness_check_and_update
      [example_bet ''a'' FRESH, example_bet ''b'' TO_PROCESS, example_bet ''c'' EXPIRED])
     = [FRESH, TO_PROCESS, EXPIRED]
   \<and> map queue_status (bet_freshness_check_and_update
      [example_bet ''a'' FRESH, example_bet ''b'' FRESH, example_bet ''c'' EXPIRED])
     = [TO_PROCESS, TO_PROCESS, EXPIRED]"
  using advance_freshness
      [of "[example_bet ''a'' FRESH, example_bet ''b'' TO_PROCESS, example_bet ''c'' EXPIRED]"]
    advance_freshness
      [of "[example_bet ''a'' FRESH, example_bet ''b'' FRESH, example_bet ''c'' EXPIRED]"]
  by (simp add: example_bet_def)

text \<open>
  Claim C9 as stated fails: with two bets, both FRESH and neither EXPIRED (so a bet that
  is not EXPIRED still is FRESH), the check changes the queue status of both.
\<close>

theorem advance_freshness_counterexample:
  "queue_status (example_bet ''a'' FRESH) = FRESH
   \<and> queue_status (example_bet ''a'' FRESH) \<noteq> EXPIRED
   \<and> map queue_status (bet_freshness_check_and_update
        [example_bet ''a'' FRESH, example_bet ''b'' FRESH]) = [TO_PROCESS, TO_PROCESS]"
  by (simp add: example_bet_def bet_freshness_check_and_update_def all_bets_fresh_def
      promote_def)

section \<open>Sorting, searching and the minimum\<close>

lemma set_insort_reverse: "set (insort_reverse k x xs) = insert x (set xs)"
  by (induction xs) auto

lemma set_sort_reverse: "set (sort_reverse k xs) = set xs"
  by (induction xs) (simp_all add: sort_reverse_def set_insort_reverse)

lemma sort_reverse_Cons: "sort_reverse k (x # xs) = insort_reverse k x (sort_reverse k xs)"
  by (simp add: sort_reverse_def)

lemma hd_insort_reverse:
  "hd (insort_reverse k x ys) = (if ys = [] \<or> k (hd ys) \<le> k x then x else hd ys)"
  by (cases ys) auto

lemma insort_reverse_not_Nil: "insort_reverse k x ys \<noteq> []"
  by (cases ys) auto

lemma sort_reverse_Nil_iff: "sort_reverse k xs = [] \<longleftrightarrow> xs = []"
  by (cases xs) (simp_all add: sort_reverse_def insort_reverse_not_Nil)

lemma hd_sort_reverse_max:
  "xs \<noteq> [] \<Longrightarrow> y \<in> set xs \<Longrightarrow> k y \<le> k (hd (sort_reverse k xs))"
proof (induction xs arbitrary: y)
  case Nil
  then show ?case by simp
next
  case (Cons x xs)
  show ?case
  proof (cases "xs = []")
    case True
    with Cons.prems show ?thesis by (simp add: sort_reverse_def)
  next
    case False
    then have ne: "sort_reverse k xs \<noteq> []" by (simp add: sort_reverse_Nil_iff)
    have ih: "\<And>z. z \<in> set xs \<Longrightarrow> k z \<le> k (hd (sort_reverse k xs))"
      using Cons.IH False by blast
    show ?thesis
    proof (cases "k (hd (sort_reverse k xs)) \<le> k x")
      case True
      then have "hd (sort_reverse k (x # xs)) = x"
        by (simp add: sort_reverse_Cons hd_insort_reverse)
      moreover have "k y \<le> k x"
        using Cons.prems(2) ih True by (auto intro: order_trans)
      ultimately show ?thesis by simp
    next
      case F2: False
      then have "hd (sort_reverse k (x # xs)) = hd (sort_reverse k xs)"
        using ne by (simp add: sort_reverse_Cons hd_insort_reverse)
      moreover have "k y \<le> k (hd (sort_reverse k xs))"
        using Cons.prems(2) ih F2 by auto
      ultimately show ?thesis by simp
    qed
  qed
qed

lemma first_elem_sort_reverse:
  assumes "xs \<noteq> []"
  shows "\<exists>b. first_elem (sort_reverse k xs) = Inr b \<and> b \<in> set xs \<and> (\<forall>y\<in>set xs. k y \<le> k b)"
proof -
  from assms obtain b bs where s: "sort_reverse k xs = b # bs"
    by (cases "sort_reverse k xs") (simp_all add: sort_reverse_Nil_iff)
  then have "b \<in> set xs" using set_sort_reverse [of k xs] by auto
  moreover have "\<forall>y\<in>set xs. k y \<le> k b"
    using hd_sort_reverse_max [OF assms, of _ k] s by simp
  ultimately show ?thesis using s by (simp add: first_elem_def)
qed

lemma list_index_mem:
  "x \<in> set xs \<Longrightarrow> \<exists>i. list_index xs x = Inr i \<and> i < length xs \<and> xs ! i = x"
  by (induction xs) auto

lemma py_min_nonempty:
  "xs \<noteq> [] \<Longrightarrow> py_min xs = Inr (Min (set xs))"
proof (cases xs)
  case Nil
  assume "xs \<noteq> []"
  with Nil show ?thesis by simp
next
  case (Cons a list)
  have "fold min list a = Min (set (a # list))"
    by (rule Min.set_eq_fold [symmetric])
  with Cons show ?thesis by (simp add: py_min_def)
qed

section \<open>The pick of the sampling\<close>

text \<open>\<open>_sampled_bet_idx\<close> once the least queue number is known.\<close>


lemma sampled_bet_idx_unfold:
  assumes pm: "py_min (map queue_no bs) = Inr m"
  shows "sampled_bet_idx self bs =
     (if filter (\<lambda>bet. processed_timestamp bet = 0) bs \<noteq> []
      then (case first_elem (sort_reverse new_bet_key (filter (\<lambda>bet. processed_timestamp bet = 0) bs)) of
              Inl e \<Rightarrow> Inl e | Inr bet \<Rightarrow> list_index (bets self) bet)
      else (case first_elem (sort_reverse priority_bet_key (filter (\<lambda>bet. queue_no bet = m) bs)) of
              Inl e \<Rightarrow> Inl e | Inr bet \<Rightarrow> list_index (bets self) bet))"
  unfolding sampled_bet_idx_def pm by (simp only: sum.case Let_def)

lemma py_min_map_nonempty:
  "bs \<noteq> [] \<Longrightarrow> py_min (map f bs) = Inr (Min (f ` set bs))"
  using py_min_nonempty [of "map f bs"] by simp

lemma sampled_bet_idx_new:
  assumes ne: "bs \<noteq> []" and sub: "set bs \<subseteq> set (bets self)"
    and new: "b0 \<in> set bs" "processed_timestamp b0 = 0"
  shows "\<exists>idx. sampled_bet_idx self bs = Inr idx \<and> idx < length (bets self)
           \<and> bets self ! idx \<in> set bs \<and> processed_timestamp (bets self ! idx) = 0
           \<and> (\<forall>y\<in>set bs. processed_timestamp y = 0 \<longrightarrow>
                  new_bet_key y \<le> new_bet_key (bets self ! idx))"
proof -
  let ?new = "filter (\<lambda>bet. processed_timestamp bet = 0) bs"
  have mem: "b0 \<in> set ?new" using new by simp
  then have nne: "?new \<noteq> []" by (metis empty_iff list.set(1))
  from first_elem_sort_reverse [OF nne, where k = new_bet_key]
  obtain b where b1: "first_elem (sort_reverse new_bet_key ?new) = Inr b"
    and b2: "b \<in> set ?new"
    and b3: "\<forall>y\<in>set ?new. new_bet_key y \<le> new_bet_key b"
    by (elim exE conjE)
  have bin: "b \<in> set bs" and bz: "processed_timestamp b = 0" using b2 by simp_all
  have "b \<in> set (bets self)" using bin sub by (rule subsetD [rotated])
  from list_index_mem [OF this]
  obtain i where i1: "list_index (bets self) b = Inr i" and i2: "i < length (bets self)"
    and i3: "bets self ! i = b"
    by (elim exE conjE)
  have pm: "py_min (map queue_no bs) = Inr (Min (queue_no ` set bs))"
    using ne by (rule py_min_map_nonempty)
  have r: "sampled_bet_idx self bs = Inr i"
    by (simp only: sampled_bet_idx_unfold [OF pm] nne b1 i1 if_True sum.case not_False_eq_True)
  have mx: "\<forall>y\<in>set bs. processed_timestamp y = 0 \<longrightarrow> new_bet_key y \<le> new_bet_key b"
    using b3 by simp
  show ?thesis
    apply (rule exI [of _ i])
    apply (simp only: r i2 i3 bin bz simp_thms)
    apply (rule mx)
    done
qed


lemma sampled_bet_idx_retry:
  assumes ne: "bs \<noteq> []" and sub: "set bs \<subseteq> set (bets self)"
    and old: "\<forall>y\<in>set bs. processed_timestamp y \<noteq> 0"
  shows "\<exists>idx. sampled_bet_idx self bs = Inr idx \<and> idx < length (bets self)
           \<and> bets self ! idx \<in> set bs
           \<and> queue_no (bets self ! idx) = Min (queue_no ` set bs)
           \<and> (\<forall>y\<in>set bs. queue_no y = Min (queue_no ` set bs) \<longrightarrow>
                  priority_bet_key y \<le> priority_bet_key (bets self ! idx))"
proof -
  let ?m = "Min (queue_no ` set bs)"
  let ?new = "filter (\<lambda>bet. processed_timestamp bet = 0) bs"
  let ?prio = "filter (\<lambda>bet. queue_no bet = ?m) bs"
  have nonew: "?new = []" using old by (simp add: filter_empty_conv)
  have "?m \<in> queue_no ` set bs" using ne by (intro Min_in) simp_all
  then obtain b1 where "b1 \<in> set bs" "queue_no b1 = ?m" by (elim imageE) simp
  then have "b1 \<in> set ?prio" by simp
  then have pne: "?prio \<noteq> []" by (metis empty_iff list.set(1))
  from first_elem_sort_reverse [OF pne, where k = priority_bet_key]
  obtain b where b1: "first_elem (sort_reverse priority_bet_key ?prio) = Inr b"
    and b2: "b \<in> set ?prio"
    and b3: "\<forall>y\<in>set ?prio. priority_bet_key y \<le> priority_bet_key b"
    by (elim exE conjE)
  have bin: "b \<in> set bs" and bq: "queue_no b = ?m" using b2 by simp_all
  have "b \<in> set (bets self)" using bin sub by (rule subsetD [rotated])
  from list_index_mem [OF this]
  obtain i where i1: "list_index (bets self) b = Inr i" and i2: "i < length (bets self)"
    and i3: "bets self ! i = b"
    by (elim exE conjE)
  have pm: "py_min (map queue_no bs) = Inr ?m"
    using ne by (rule py_min_map_nonempty)
  have r: "sampled_bet_idx self bs = Inr i"
    by (simp only: sampled_bet_idx_unfold [OF pm] nonew b1 i1 if_False sum.case simp_thms)
  have mx: "\<forall>y\<in>set bs. queue_no y = ?m \<longrightarrow> priority_bet_key y \<le> priority_bet_key b"
    using b3 by simp
  show ?thesis
    apply (rule exI [of _ i])
    apply (simp only: r i2 i3 bin bq simp_thms)
    apply (rule mx)
    done
qed

lemma sampled_bet_idx_total:
  assumes ne: "bs \<noteq> []" and sub: "set bs \<subseteq> set (bets self)"
  shows "\<exists>idx. sampled_bet_idx self bs = Inr idx \<and> idx < length (bets self)
           \<and> bets self ! idx \<in> set bs"
proof (cases "\<forall>y\<in>set bs. processed_timestamp y \<noteq> 0")
  case True
  from sampled_bet_idx_retry [OF ne sub True] show ?thesis by (elim exE conjE) (intro exI conjI)
next
  case False
  then obtain b0 where "b0 \<in> set bs" "processed_timestamp b0 = 0" by (simp only: Set.ball_simps not_not bex_simps) (elim bexE conjE)
  from sampled_bet_idx_new [OF ne sub this] show ?thesis by (elim exE conjE) (intro exI conjI)
qed

text \<open>What \<open>sample\<close> returns once the index of the pick is known.\<close>

lemma sample_unfold:
  assumes av: "filter (processable_bet self) (bets self) \<noteq> []"
    and r: "sampled_bet_idx self (filter (processable_bet self) (bets self)) = Inr idx"
    and lt: "idx < length (bets self)"
  shows "sample self =
           (if scaledLiquidityMeasure (bets self ! idx) = 0 then Inr (None, self)
            else Inr (Some idx,
                   self\<lparr>liquidity_cache :=
                          (liquidity_cache self)(bet_id (bets self ! idx) \<mapsto>
                             scaledLiquidityMeasure (bets self ! idx))\<rparr>))"
proof -
  have l: "\<not> length (bets self) \<le> idx" using lt by simp
  have z: "length (filter (processable_bet self) (bets self)) \<noteq> 0" using av by simp
  show ?thesis
    unfolding sample_def Let_def
    by (simp only: z r l if_False sum.case)
qed

lemma sample_empty:
  assumes "filter (processable_bet self) (bets self) = []"
  shows "sample self = Inr (None, self)"
  unfolding sample_def Let_def by (simp only: assms list.size simp_thms if_True)

lemma sample_never_raises: "\<exists>idx self'. sample self = Inr (idx, self')"
proof (cases "filter (processable_bet self) (bets self) = []")
  case True
  then show ?thesis by (simp only: sample_empty) blast
next
  case False
  have sub: "set (filter (processable_bet self) (bets self)) \<subseteq> set (bets self)" by simp
  from sampled_bet_idx_total [OF False sub]
  obtain i where r: "sampled_bet_idx self (filter (processable_bet self) (bets self)) = Inr i"
    and lt: "i < length (bets self)" by (elim exE conjE)
  show ?thesis
    unfolding sample_unfold [OF False r lt]
    by (cases "scaledLiquidityMeasure (bets self ! i) = 0") simp_all
qed

lemma sample_Some_processable:
  assumes "sample self = Inr (Some idx, self')"
  shows "idx < length (bets self) \<and> processable_bet self (bets self ! idx)
         \<and> scaledLiquidityMeasure (bets self ! idx) \<noteq> 0"
proof (cases "filter (processable_bet self) (bets self) = []")
  case True
  from assms show ?thesis unfolding sample_empty [OF True] by simp
next
  case False
  have sub: "set (filter (processable_bet self) (bets self)) \<subseteq> set (bets self)" by simp
  from sampled_bet_idx_total [OF False sub]
  obtain i where r: "sampled_bet_idx self (filter (processable_bet self) (bets self)) = Inr i"
    and lt: "i < length (bets self)"
    and mem: "bets self ! i \<in> set (filter (processable_bet self) (bets self))"
    by (elim exE conjE)
  have p: "processable_bet self (bets self ! i)" using mem by simp
  from assms have "scaledLiquidityMeasure (bets self ! i) \<noteq> 0 \<and> idx = i"
    unfolding sample_unfold [OF False r lt]
    by (cases "scaledLiquidityMeasure (bets self ! i) = 0") simp_all
  then show ?thesis using lt p by simp
qed

end
